theory Spec2Isabelle
  imports Main
begin

section \<open>The leveled logger (src/core/Logging.ts)\<close>

subsection \<open>LogLevel and LogMessage\<close>

text \<open>
  The enum \<open>LogLevel\<close>. A TypeScript enum member is its position in the declaration,
  and the logger compares levels as numbers; \<open>LogLevel_num\<close> is that number and
  \<open>LogLevel_name\<close> the reverse mapping \<open>LogLevel[n]\<close> used when a line is formatted.
\<close>

datatype LogLevel = Off | Fatal | Error | Warn | Info | Debug | Trace

fun LogLevel_num :: "LogLevel \<Rightarrow> nat" where
  "LogLevel_num Off = 0"
| "LogLevel_num Fatal = 1"
| "LogLevel_num Error = 2"
| "LogLevel_num Warn = 3"
| "LogLevel_num Info = 4"
| "LogLevel_num Debug = 5"
| "LogLevel_num Trace = 6"

fun LogLevel_name :: "LogLevel \<Rightarrow> string" where
  "LogLevel_name Off = ''Off''"
| "LogLevel_name Fatal = ''Fatal''"
| "LogLevel_name Error = ''Error''"
| "LogLevel_name Warn = ''Warn''"
| "LogLevel_name Info = ''Info''"
| "LogLevel_name Debug = ''Debug''"
| "LogLevel_name Trace = ''Trace''"

text \<open>
  The wall clock read by \<open>new Date()\<close> in the constructor of \<open>LogMessage\<close>:
  hours, minutes and seconds. The model takes it as an argument.
\<close>

record clock =
  getHours :: nat
  getMinutes :: nat
  getSeconds :: nat

text \<open>The decimal text a template literal produces for a non-negative integer.\<close>

definition digit :: "nat \<Rightarrow> char" where
  "digit d = ''0123456789'' ! (d mod 10)"

function string_of_nat :: "nat \<Rightarrow> string" where
  "string_of_nat n =
     (if n < 10 then [digit n] else string_of_nat (n div 10) @ [digit (n mod 10)])"
  by pat_completeness auto
termination
  by (relation "measure id") auto

record LogMessage =
  timestamp :: string
  logMessage :: string
  logLevel :: LogLevel

definition new_LogMessage :: "clock \<Rightarrow> string \<Rightarrow> LogLevel \<Rightarrow> LogMessage" where
  "new_LogMessage a aMsg aLevel =
     \<lparr> timestamp = string_of_nat (getHours a) @ '':'' @ string_of_nat (getMinutes a)
                     @ '':'' @ string_of_nat (getSeconds a),
       logMessage = aMsg,
       logLevel = aLevel \<rparr>"

definition FormattedMessage :: "LogMessage \<Rightarrow> string" where
  "FormattedMessage m =
     LogLevel_name (logLevel m) @ '' : '' @ timestamp m @ '' : '' @ logMessage m"

subsection \<open>ButtplugLogger\<close>

text \<open>
  The three fields of the logger, with the initial values of the class declaration
  in \<open>new_ButtplugLogger\<close>, and the three setters.
\<close>

record ButtplugLogger =
  logToConsole :: bool
  maximumConsoleLogLevel :: LogLevel
  maximumLogLevel :: LogLevel

definition new_ButtplugLogger :: ButtplugLogger where
  "new_ButtplugLogger =
     \<lparr> logToConsole = False, maximumConsoleLogLevel = Off, maximumLogLevel = Off \<rparr>"

definition set_MaximumConsoleLogLevel :: "LogLevel \<Rightarrow> ButtplugLogger \<Rightarrow> ButtplugLogger" where
  "set_MaximumConsoleLogLevel aLogLevel g = g\<lparr>maximumConsoleLogLevel := aLogLevel\<rparr>"

definition set_MaximumLogLevel :: "LogLevel \<Rightarrow> ButtplugLogger \<Rightarrow> ButtplugLogger" where
  "set_MaximumLogLevel aLogLevel g = g\<lparr>maximumLogLevel := aLogLevel\<rparr>"

definition set_ConsoleLogging :: "bool \<Rightarrow> ButtplugLogger \<Rightarrow> ButtplugLogger" where
  "set_ConsoleLogging aShouldLog g = g\<lparr>logToConsole := aShouldLog\<rparr>"

text \<open>
  What one call of \<open>AddLogMessage\<close> does, in the order it does it: the construction of
  the \<open>LogMessage\<close> (which reads the clock), the line given to \<open>console.log\<close>, and the
  \<open>log\<close> event given to the subscribers. The logger's fields are not written by it.
\<close>

datatype log_effect =
    Constructed LogMessage
  | ConsoleLog string
  | EmitLog LogMessage

definition AddLogMessage ::
  "clock \<Rightarrow> ButtplugLogger \<Rightarrow> string \<Rightarrow> LogLevel \<Rightarrow> log_effect list" where
  "AddLogMessage a g aMsg aLevel =
     (if LogLevel_num aLevel > LogLevel_num (maximumLogLevel g)
         \<and> LogLevel_num aLevel > LogLevel_num (maximumConsoleLogLevel g)
      then []
      else
        let msg = new_LogMessage a aMsg aLevel in
        [Constructed msg]
        @ (if logToConsole g \<and> LogLevel_num aLevel \<le> LogLevel_num (maximumConsoleLogLevel g)
           then [ConsoleLog (FormattedMessage msg)] else [])
        @ (if LogLevel_num aLevel \<le> LogLevel_num (maximumLogLevel g)
           then [EmitLog msg] else []))"

text \<open>The public entry points: each fixes the level.\<close>

definition log_Fatal :: "clock \<Rightarrow> ButtplugLogger \<Rightarrow> string \<Rightarrow> log_effect list" where
  "log_Fatal a g aMsg = AddLogMessage a g aMsg Fatal"

definition log_Error :: "clock \<Rightarrow> ButtplugLogger \<Rightarrow> string \<Rightarrow> log_effect list" where
  "log_Error a g aMsg = AddLogMessage a g aMsg Error"

definition log_Warn :: "clock \<Rightarrow> ButtplugLogger \<Rightarrow> string \<Rightarrow> log_effect list" where
  "log_Warn a g aMsg = AddLogMessage a g aMsg Warn"

definition log_Info :: "clock \<Rightarrow> ButtplugLogger \<Rightarrow> string \<Rightarrow> log_effect list" where
  "log_Info a g aMsg = AddLogMessage a g aMsg Info"

definition log_Debug :: "clock \<Rightarrow> ButtplugLogger \<Rightarrow> string \<Rightarrow> log_effect list" where
  "log_Debug a g aMsg = AddLogMessage a g aMsg Debug"

definition log_Trace :: "clock \<Rightarrow> ButtplugLogger \<Rightarrow> string \<Rightarrow> log_effect list" where
  "log_Trace a g aMsg = AddLogMessage a g aMsg Trace"

text \<open>
  \<open>AddLogMessage\<close> is protected: its callers are the six methods above, so the levels a
  message is logged at are \<open>Fatal\<close> to \<open>Trace\<close>.
\<close>

definition message_levels :: "LogLevel list" where
  "message_levels = [Fatal, Error, Warn, Info, Debug, Trace]"

definition public_methods :: "(clock \<Rightarrow> ButtplugLogger \<Rightarrow> string \<Rightarrow> log_effect list) list" where
  "public_methods = [log_Fatal, log_Error, log_Warn, log_Info, log_Debug, log_Trace]"

text \<open>Observations on the effects of a call.\<close>

fun is_ConsoleLog :: "log_effect \<Rightarrow> bool" where
  "is_ConsoleLog (ConsoleLog _) = True"
| "is_ConsoleLog _ = False"

fun is_EmitLog :: "log_effect \<Rightarrow> bool" where
  "is_EmitLog (EmitLog _) = True"
| "is_EmitLog _ = False"

fun is_Constructed :: "log_effect \<Rightarrow> bool" where
  "is_Constructed (Constructed _) = True"
| "is_Constructed _ = False"

definition console_lines :: "log_effect list \<Rightarrow> nat" where
  "console_lines es = length (filter is_ConsoleLog es)"

definition log_events :: "log_effect list \<Rightarrow> nat" where
  "log_events es = length (filter is_EmitLog es)"

definition records_built :: "log_effect list \<Rightarrow> nat" where
  "records_built es = length (filter is_Constructed es)"


section \<open>The websocket client (src/client/WebsocketClient.ts)\<close>

subsection \<open>The objects the client works on\<close>

text \<open>
  A \<open>WebSocket\<close> object is known to the client by the listeners it registers on it.
  The browser keeps them as a list of (event type, callback) pairs: \<open>addEventListener\<close>
  appends a pair that is not in the list yet, \<open>removeEventListener\<close> takes it out, and an
  event runs the callbacks of its type in list order. The callbacks the code registers are
  the four below: the arrow function given for \<open>open\<close>, \<open>conErrorCallback\<close>, the arrow
  function given for \<open>message\<close>, and \<open>this.Disconnect\<close>.

  Every \<open>Connect\<close> call creates one socket and one promise; both are stored under the same
  index, which stands for the object's identity. The field \<open>_ws\<close> holds such an index or
  is \<open>undefined\<close> (\<open>None\<close>). The two arrow functions are new closures each time they are
  created; a socket has one of each, since \<open>Connect\<close> registers on a new socket and the
  browser fires \<open>open\<close> at most once per socket.
\<close>

type_synonym sock = nat

datatype event_type = ev_open | ev_message | ev_close

datatype listener = OpenListener | conErrorCallback | MessageListener | DisconnectListener

record WebSocket =
  url :: string
  listeners :: "(event_type \<times> listener) list"

text \<open>The close event handed to \<open>conErrorCallback\<close>, by its close code.\<close>

type_synonym CloseEvent = nat

text \<open>
  The promise \<open>p\<close> returned by \<open>Connect\<close>: \<open>rej(ev)\<close> rejects it with the close event,
  \<open>rej()\<close> with nothing. A promise settles once; later calls of \<open>res\<close> and \<open>rej\<close> change
  nothing.
\<close>

datatype promise = Pending | Resolved | Rejected "CloseEvent option"

text \<open>The payload of a \<open>MessageEvent\<close>: a string, a \<open>Blob\<close> (by the text it holds), or
  anything else (an \<open>ArrayBuffer\<close>).\<close>

datatype data = Text string | Blob string | OtherData

text \<open>
  What the client does to the outside, in the order it does it: the hooks of the base class
  \<open>ButtplugClient\<close> it calls (\<open>InitializeConnection\<close>, \<open>ShutdownConnection\<close>,
  \<open>ParseMessages\<close>), the \<open>send\<close> and \<open>close\<close> calls on a socket, \<open>readAsText\<close> on a new
  \<open>FileReader\<close>, the events it emits, and an exception that leaves it. Each effect is kept
  with the value the getter \<open>Connected\<close> has at that moment, which is what the hook or the
  subscriber it reaches would read.
\<close>

datatype failure = NotConnected | DecodeFailed

datatype 'msg effect =
    InitializeConnection
  | ShutdownConnection
  | ParseMessages "'msg list"
  | ws_send sock string
  | ws_close sock
  | readAsText string
  | Emit string
  | Raised failure

record 'msg ButtplugWebsocketClient =
  ws :: "sock option"
  sockets :: "WebSocket list"
  promises :: "promise list"
  trace :: "('msg effect \<times> bool) list"

definition new_ButtplugWebsocketClient :: "'msg ButtplugWebsocketClient" where
  "new_ButtplugWebsocketClient = \<lparr> ws = None, sockets = [], promises = [], trace = [] \<rparr>"

definition Connected :: "'msg ButtplugWebsocketClient \<Rightarrow> bool" where
  "Connected t = (ws t \<noteq> None)"

definition effect ::
  "'msg effect \<Rightarrow> 'msg ButtplugWebsocketClient \<Rightarrow> 'msg ButtplugWebsocketClient" where
  "effect e t = t\<lparr>trace := trace t @ [(e, Connected t)]\<rparr>"

definition addEventListener ::
  "sock \<Rightarrow> event_type \<Rightarrow> listener \<Rightarrow> 'msg ButtplugWebsocketClient
     \<Rightarrow> 'msg ButtplugWebsocketClient" where
  "addEventListener c ty l t =
     (if c < length (sockets t) then
        let s = sockets t ! c in
        if (ty, l) \<in> set (listeners s) then t
        else t\<lparr>sockets := (sockets t)[c := s\<lparr>listeners := listeners s @ [(ty, l)]\<rparr>]\<rparr>
      else t)"

definition removeEventListener ::
  "sock \<Rightarrow> event_type \<Rightarrow> listener \<Rightarrow> 'msg ButtplugWebsocketClient
     \<Rightarrow> 'msg ButtplugWebsocketClient" where
  "removeEventListener c ty l t =
     (if c < length (sockets t) then
        let s = sockets t ! c in
        t\<lparr>sockets := (sockets t)[c := s\<lparr>listeners := removeAll (ty, l) (listeners s)\<rparr>]\<rparr>
      else t)"

definition listeners_of :: "'msg ButtplugWebsocketClient \<Rightarrow> sock \<Rightarrow> event_type \<Rightarrow> listener list" where
  "listeners_of t c ty =
     (if c < length (sockets t)
      then map snd (filter (\<lambda>p. fst p = ty) (listeners (sockets t ! c)))
      else [])"

definition settle ::
  "sock \<Rightarrow> promise \<Rightarrow> 'msg ButtplugWebsocketClient \<Rightarrow> 'msg ButtplugWebsocketClient" where
  "settle c v t =
     (if c < length (promises t) \<and> promises t ! c = Pending
      then t\<lparr>promises := (promises t)[c := v]\<rparr> else t)"

subsection \<open>The methods\<close>

text \<open>
  Modelled from the spec: the codec of \<open>core/Messages\<close> (\<open>FromJSON\<close> and the method
  \<open>toJSON\<close> of a message) lies outside the two files modelled here, so both are
  arguments. \<open>FromJSON\<close> is fallible (\<open>None\<close>: it throws on text it cannot decode),
  \<open>toJSON\<close> is total.
\<close>

type_synonym 'msg decoder = "string \<Rightarrow> 'msg list option"

type_synonym 'msg encoder = "'msg \<Rightarrow> string"

text \<open>\<open>OnReaderLoad\<close>: the text a \<open>FileReader\<close> has loaded is decoded and handed on.\<close>

definition OnReaderLoad ::
  "'msg decoder \<Rightarrow> string \<Rightarrow> 'msg ButtplugWebsocketClient
     \<Rightarrow> failure + 'msg ButtplugWebsocketClient" where
  "OnReaderLoad FromJSON result t =
     (case FromJSON result of
        None \<Rightarrow> Inl DecodeFailed
      | Some msgs \<Rightarrow> Inr (effect (ParseMessages msgs) t))"

definition ParseIncomingMessage ::
  "'msg decoder \<Rightarrow> data \<Rightarrow> 'msg ButtplugWebsocketClient
     \<Rightarrow> failure + 'msg ButtplugWebsocketClient" where
  "ParseIncomingMessage FromJSON d t =
     (case d of
        Text s \<Rightarrow>
          (case FromJSON s of
             None \<Rightarrow> Inl DecodeFailed
           | Some msgs \<Rightarrow> Inr (effect (ParseMessages msgs) t))
      | Blob b \<Rightarrow> Inr (effect (readAsText b) t)
      | OtherData \<Rightarrow> Inr t)"

text \<open>
  \<open>Connect\<close>, up to \<open>return p\<close>: a new socket with the \<open>open\<close> listener and
  \<open>conErrorCallback\<close> on \<open>close\<close>, and a pending promise. The result names both.
  (The calls modelled are those in which \<open>new WebSocket\<close> returns a socket.)
\<close>

definition Connect ::
  "string \<Rightarrow> 'msg ButtplugWebsocketClient \<Rightarrow> sock \<times> 'msg ButtplugWebsocketClient" where
  "Connect aUrl t =
     (let c = length (sockets t);
          t1 = t\<lparr>sockets := sockets t @ [\<lparr>url = aUrl, listeners = []\<rparr>],
                 promises := promises t @ [Pending]\<rparr>;
          t2 = addEventListener c ev_open OpenListener t1;
          t3 = addEventListener c ev_close conErrorCallback t2
      in (c, t3))"

text \<open>
  The \<open>open\<close> listener of socket \<open>c\<close> runs in two parts. The first stores the socket in
  \<open>_ws\<close>, swaps the listeners and calls \<open>InitializeConnection\<close>; there it is suspended
  by \<open>await\<close>. The second runs when the hook's promise has settled: \<open>Returned b\<close> when it
  was fulfilled with \<open>b\<close>, \<open>Threw\<close> when it was rejected, in which case the exception
  leaves the listener and neither \<open>res\<close> nor \<open>rej\<close> is called.
\<close>

datatype outcome = Returned bool | Threw

definition open_listener ::
  "sock \<Rightarrow> 'msg ButtplugWebsocketClient \<Rightarrow> 'msg ButtplugWebsocketClient" where
  "open_listener c t =
     (let t1 = t\<lparr>ws := Some c\<rparr>;
          t2 = addEventListener c ev_message MessageListener t1;
          t3 = removeEventListener c ev_close conErrorCallback t2;
          t4 = addEventListener c ev_close DisconnectListener t3
      in effect InitializeConnection t4)"

definition open_listener_resume ::
  "sock \<Rightarrow> outcome \<Rightarrow> 'msg ButtplugWebsocketClient \<Rightarrow> 'msg ButtplugWebsocketClient" where
  "open_listener_resume c r t =
     (case r of
        Returned b \<Rightarrow> if \<not> b then settle c (Rejected None) t else settle c Resolved t
      | Threw \<Rightarrow> t)"

definition call_conErrorCallback ::
  "sock \<Rightarrow> CloseEvent \<Rightarrow> 'msg ButtplugWebsocketClient \<Rightarrow> 'msg ButtplugWebsocketClient" where
  "call_conErrorCallback c ev t = settle c (Rejected (Some ev)) t"

definition Disconnect :: "'msg ButtplugWebsocketClient \<Rightarrow> 'msg ButtplugWebsocketClient" where
  "Disconnect t =
     (if \<not> Connected t then t
      else
        let t1 = effect ShutdownConnection t;
            t2 = effect (ws_close (the (ws t1))) t1;
            t3 = t2\<lparr>ws := None\<rparr>
        in effect (Emit ''close'') t3)"

definition Send ::
  "'msg encoder \<Rightarrow> 'msg \<Rightarrow> 'msg ButtplugWebsocketClient
     \<Rightarrow> failure + 'msg ButtplugWebsocketClient" where
  "Send toJSON aMsg t =
     (if \<not> Connected t then Inl NotConnected
      else Inr (effect (ws_send (the (ws t)) (''['' @ toJSON aMsg @ '']'')) t))"

subsection \<open>The event loop\<close>

text \<open>
  One callback registered on a socket, run for one event. An exception that leaves a
  listener is reported by the browser and the remaining listeners still run: the state is
  as the listener left it, and the trace gets a \<open>Raised\<close> entry.
\<close>

definition raise_or ::
  "'msg ButtplugWebsocketClient \<Rightarrow> failure + 'msg ButtplugWebsocketClient
     \<Rightarrow> 'msg ButtplugWebsocketClient" where
  "raise_or t r = (case r of Inl e \<Rightarrow> effect (Raised e) t | Inr t' \<Rightarrow> t')"

datatype payload = NoPayload | MessageData data | Closing CloseEvent

fun call_listener ::
  "'msg decoder \<Rightarrow> sock \<Rightarrow> payload \<Rightarrow> listener \<Rightarrow> 'msg ButtplugWebsocketClient
     \<Rightarrow> 'msg ButtplugWebsocketClient" where
  "call_listener FromJSON c _ OpenListener t = open_listener c t"
| "call_listener FromJSON c (Closing ev) conErrorCallback t = call_conErrorCallback c ev t"
| "call_listener FromJSON c (MessageData d) MessageListener t =
     raise_or t (ParseIncomingMessage FromJSON d t)"
| "call_listener FromJSON c _ DisconnectListener t = Disconnect t"
| "call_listener FromJSON c _ _ t = t"

definition dispatch ::
  "'msg decoder \<Rightarrow> sock \<Rightarrow> event_type \<Rightarrow> payload \<Rightarrow> 'msg ButtplugWebsocketClient
     \<Rightarrow> 'msg ButtplugWebsocketClient" where
  "dispatch FromJSON c ty pl t =
     fold (call_listener FromJSON c pl) (listeners_of t c ty) t"

text \<open>
  What can happen to a client: a call of one of its methods, an event of one of its
  sockets, the settling of the handshake promise an \<open>open\<close> listener waits for, and the
  \<open>load\<close> event of a \<open>FileReader\<close>. The event loop runs them one after the other.
\<close>

datatype 'msg event =
    call_Connect string
  | call_Disconnect
  | call_Send 'msg
  | socket_open sock
  | socket_message sock data
  | socket_close sock CloseEvent
  | handshake_settled sock outcome
  | reader_load string

fun step ::
  "'msg decoder \<Rightarrow> 'msg encoder \<Rightarrow> 'msg ButtplugWebsocketClient \<Rightarrow> 'msg event
     \<Rightarrow> 'msg ButtplugWebsocketClient" where
  "step FromJSON toJSON t (call_Connect aUrl) = snd (Connect aUrl t)"
| "step FromJSON toJSON t call_Disconnect = Disconnect t"
| "step FromJSON toJSON t (call_Send aMsg) = raise_or t (Send toJSON aMsg t)"
| "step FromJSON toJSON t (socket_open c) = dispatch FromJSON c ev_open NoPayload t"
| "step FromJSON toJSON t (socket_message c d) =
     dispatch FromJSON c ev_message (MessageData d) t"
| "step FromJSON toJSON t (socket_close c ev) = dispatch FromJSON c ev_close (Closing ev) t"
| "step FromJSON toJSON t (handshake_settled c r) = open_listener_resume c r t"
| "step FromJSON toJSON t (reader_load result) = raise_or t (OnReaderLoad FromJSON result t)"

definition run ::
  "'msg decoder \<Rightarrow> 'msg encoder \<Rightarrow> 'msg event list \<Rightarrow> 'msg ButtplugWebsocketClient
     \<Rightarrow> 'msg ButtplugWebsocketClient" where
  "run FromJSON toJSON es t = foldl (step FromJSON toJSON) t es"

text \<open>Observations on a trace.\<close>

definition effects :: "'msg ButtplugWebsocketClient \<Rightarrow> 'msg effect list" where
  "effects t = map fst (trace t)"

definition occurrences :: "'msg effect \<Rightarrow> 'msg ButtplugWebsocketClient \<Rightarrow> nat" where
  "occurrences e t = count_list (effects t) e"

fun is_ws_send :: "'msg effect \<Rightarrow> bool" where
  "is_ws_send (ws_send _ _) = True"
| "is_ws_send _ = False"

fun is_ParseMessages :: "'msg effect \<Rightarrow> bool" where
  "is_ParseMessages (ParseMessages _) = True"
| "is_ParseMessages _ = False"


text \<open>
  The flag the subscribers of \<open>close\<close> read: an entry of the trace that emits \<open>close\<close>
  is in order when \<open>Connected\<close> was false at that moment.
\<close>

fun close_entry_ok :: "'msg effect \<times> bool \<Rightarrow> bool" where
  "close_entry_ok (Emit n, b) = (n \<noteq> ''close'' \<or> \<not> b)"
| "close_entry_ok _ = True"

definition closes_seen_disconnected :: "'msg ButtplugWebsocketClient \<Rightarrow> bool" where
  "closes_seen_disconnected t = list_all close_entry_ok (trace t)"

fun is_Emit :: "'msg effect \<Rightarrow> bool" where
  "is_Emit (Emit _) = True"
| "is_Emit _ = False"

subsection \<open>Well-formed clients and the phases of a Connect call\<close>

text \<open>
  The only (event type, callback) pairs the code ever registers are the four of
  \<open>registered\<close>. A client is well formed when its sockets carry no other pair and every
  socket has its promise; a new client is, and every method and event keeps it so.
\<close>

fun registered :: "event_type \<times> listener \<Rightarrow> bool" where
  "registered (ev_open, OpenListener) = True"
| "registered (ev_close, conErrorCallback) = True"
| "registered (ev_message, MessageListener) = True"
| "registered (ev_close, DisconnectListener) = True"
| "registered _ = False"

definition well_formed :: "'msg ButtplugWebsocketClient \<Rightarrow> bool" where
  "well_formed t =
     (list_all (\<lambda>s. list_all registered (listeners s)) (sockets t)
      \<and> length (promises t) = length (sockets t))"



definition awaiting_open :: "sock \<Rightarrow> 'msg ButtplugWebsocketClient \<Rightarrow> bool" where
  "awaiting_open c t =
     (well_formed t \<and> \<not> Connected t \<and> c < length (sockets t)
      \<and> listeners (sockets t ! c) = [(ev_open, OpenListener), (ev_close, conErrorCallback)]
      \<and> promises t ! c = Pending)"

definition handshake_running :: "sock \<Rightarrow> 'msg ButtplugWebsocketClient \<Rightarrow> bool" where
  "handshake_running c t =
     (well_formed t \<and> Connected t \<and> c < length (promises t) \<and> promises t ! c = Pending)"

subsection \<open>A sample codec and a sample session\<close>

text \<open>
  For evaluating the client on concrete frames: messages are strings, the one frame that
  decodes is \<open>[a,b]\<close>, and a message encodes as itself. \<open>sample_connected\<close> is the client
  after \<open>Connect\<close>, the \<open>open\<close> event of its socket and a successful handshake.
\<close>

definition sample_FromJSON :: "string decoder" where
  "sample_FromJSON s = (if s = ''[a,b]'' then Some [''a'', ''b''] else None)"

definition sample_toJSON :: "string encoder" where
  "sample_toJSON m = m"

definition sample_connected :: "string ButtplugWebsocketClient" where
  "sample_connected =
     run sample_FromJSON sample_toJSON
       [call_Connect ''ws://host'', socket_open 0, handshake_settled 0 (Returned True)]
       new_ButtplugWebsocketClient"

section \<open>Properties of the logger\<close>

lemma LogLevel_num_Off: "LogLevel_num l = 0 \<longleftrightarrow> l = Off"
  by (cases l) simp_all

text \<open>
  Claim C5, as stated, ends with: when neither condition holds (console output enabled
  with the level within the console threshold; the level within the event threshold), the
  call constructs no record. With console output disabled, the console threshold at
  \<open>Info\<close> and the event threshold at \<open>Off\<close>, an \<open>Info\<close> call meets neither condition and
  still builds its \<open>LogMessage\<close>: the discard test of \<open>AddLogMessage\<close> compares the two
  thresholds only and does not read \<open>logToConsole\<close>.
\<close>

theorem AddLogMessage_builds_unwanted_record:
  "\<not> (logToConsole \<lparr>logToConsole = False, maximumConsoleLogLevel = Info, maximumLogLevel = Off\<rparr>
        \<and> LogLevel_num Info \<le> LogLevel_num (maximumConsoleLogLevel
             \<lparr>logToConsole = False, maximumConsoleLogLevel = Info, maximumLogLevel = Off\<rparr>))
   \<and> \<not> LogLevel_num Info \<le> LogLevel_num (maximumLogLevel
             \<lparr>logToConsole = False, maximumConsoleLogLevel = Info, maximumLogLevel = Off\<rparr>)
   \<and> AddLogMessage \<lparr>getHours = 9, getMinutes = 5, getSeconds = 30\<rparr>
        \<lparr>logToConsole = False, maximumConsoleLogLevel = Info, maximumLogLevel = Off\<rparr>
        ''cache hit'' Info
      = [Constructed \<lparr>timestamp = ''9:5:30'', logMessage = ''cache hit'', logLevel = Info\<rparr>]
   \<and> records_built (AddLogMessage \<lparr>getHours = 9, getMinutes = 5, getSeconds = 30\<rparr>
        \<lparr>logToConsole = False, maximumConsoleLogLevel = Info, maximumLogLevel = Off\<rparr>
        ''cache hit'' Info) = 1"
  by (simp add: AddLogMessage_def new_LogMessage_def records_built_def digit_def Let_def)

text \<open>
  Claim C5, amended. For every clock, logger, text and level \<open>L\<close>, a call of
  \<open>AddLogMessage\<close> prints a console line (the formatted message, once) exactly when console
  output is enabled and \<open>L \<le> maximumConsoleLogLevel\<close>, and emits a \<open>log\<close> event (carrying
  the message, once) exactly when \<open>L \<le> maximumLogLevel\<close>. The record is built exactly when
  \<open>L\<close> is within at least one of the two thresholds, whether or not console output is
  enabled; when \<open>L\<close> is above both, the call does nothing at all. The two sinks are
  independent: with console output enabled, the console threshold at \<open>Info\<close> and the event
  threshold at \<open>Trace\<close>, a \<open>Trace\<close> call emits one event and prints no line.
\<close>

theorem AddLogMessage_sinks:
  "filter is_ConsoleLog (AddLogMessage a g aMsg aLevel) =
     (if logToConsole g \<and> LogLevel_num aLevel \<le> LogLevel_num (maximumConsoleLogLevel g)
      then [ConsoleLog (FormattedMessage (new_LogMessage a aMsg aLevel))] else [])
   \<and> filter is_EmitLog (AddLogMessage a g aMsg aLevel) =
     (if LogLevel_num aLevel \<le> LogLevel_num (maximumLogLevel g)
      then [EmitLog (new_LogMessage a aMsg aLevel)] else [])
   \<and> filter is_Constructed (AddLogMessage a g aMsg aLevel) =
     (if LogLevel_num aLevel \<le> LogLevel_num (maximumLogLevel g)
         \<or> LogLevel_num aLevel \<le> LogLevel_num (maximumConsoleLogLevel g)
      then [Constructed (new_LogMessage a aMsg aLevel)] else [])
   \<and> (AddLogMessage a g aMsg aLevel = [] \<longleftrightarrow>
        LogLevel_num (maximumLogLevel g) < LogLevel_num aLevel
        \<and> LogLevel_num (maximumConsoleLogLevel g) < LogLevel_num aLevel)
   \<and> console_lines (AddLogMessage a
        \<lparr>logToConsole = True, maximumConsoleLogLevel = Info, maximumLogLevel = Trace\<rparr>
        aMsg Trace) = 0
   \<and> log_events (AddLogMessage a
        \<lparr>logToConsole = True, maximumConsoleLogLevel = Info, maximumLogLevel = Trace\<rparr>
        aMsg Trace) = 1"
  by (simp add: AddLogMessage_def Let_def console_lines_def log_events_def)

text \<open>
  The scenario of the specification: event threshold \<open>Warn\<close>, console threshold \<open>Off\<close>,
  console output enabled. \<open>Warn("disk low")\<close> gives one event and no console line,
  \<open>Debug("cache hit")\<close> gives nothing.
\<close>

theorem AddLogMessage_sinks_witness:
  "console_lines (AddLogMessage \<lparr>getHours = 9, getMinutes = 5, getSeconds = 30\<rparr>
        \<lparr>logToConsole = True, maximumConsoleLogLevel = Off, maximumLogLevel = Warn\<rparr>
        ''disk low'' Warn) = 0
   \<and> filter is_EmitLog (AddLogMessage \<lparr>getHours = 9, getMinutes = 5, getSeconds = 30\<rparr>
        \<lparr>logToConsole = True, maximumConsoleLogLevel = Off, maximumLogLevel = Warn\<rparr>
        ''disk low'' Warn)
      = [EmitLog \<lparr>timestamp = ''9:5:30'', logMessage = ''disk low'', logLevel = Warn\<rparr>]
   \<and> AddLogMessage \<lparr>getHours = 9, getMinutes = 5, getSeconds = 30\<rparr>
        \<lparr>logToConsole = True, maximumConsoleLogLevel = Off, maximumLogLevel = Warn\<rparr>
        ''cache hit'' Debug = []"
  using AddLogMessage_sinks [of "\<lparr>getHours = 9, getMinutes = 5, getSeconds = 30\<rparr>"
          "\<lparr>logToConsole = True, maximumConsoleLogLevel = Off, maximumLogLevel = Warn\<rparr>"
          "''disk low''" Warn]
        AddLogMessage_sinks [of "\<lparr>getHours = 9, getMinutes = 5, getSeconds = 30\<rparr>"
          "\<lparr>logToConsole = True, maximumConsoleLogLevel = Off, maximumLogLevel = Warn\<rparr>"
          "''cache hit''" Debug]
  by (simp add: console_lines_def new_LogMessage_def digit_def)

text \<open>The six public methods are \<open>AddLogMessage\<close> at the six message levels.\<close>

lemma message_levels_above_Off:
  "aLevel \<in> set message_levels \<Longrightarrow> 0 < LogLevel_num aLevel"
  by (auto simp add: message_levels_def)

lemma public_methods_levels:
  "map (\<lambda>m. m a g aMsg) public_methods = map (AddLogMessage a g aMsg) message_levels"
  by (simp add: public_methods_def message_levels_def log_Fatal_def log_Error_def
      log_Warn_def log_Info_def log_Debug_def log_Trace_def)

text \<open>
  Claim C6. For every message level (\<open>Fatal\<close> to \<open>Trace\<close>) and for each of the six public
  methods, which log at exactly these levels: when \<open>maximumLogLevel\<close> is \<open>Off\<close> the call
  emits no \<open>log\<close> event, and when \<open>maximumConsoleLogLevel\<close> is \<open>Off\<close> it prints no console
  line, whatever the other settings are.
\<close>

theorem Off_threshold_silences_sink:
  "(m \<in> set public_methods \<longrightarrow>
      (maximumLogLevel g = Off \<longrightarrow> log_events (m a g aMsg) = 0)
      \<and> (maximumConsoleLogLevel g = Off \<longrightarrow> console_lines (m a g aMsg) = 0))
   \<and> (aLevel \<in> set message_levels \<longrightarrow>
      (maximumLogLevel g = Off \<longrightarrow> log_events (AddLogMessage a g aMsg aLevel) = 0)
      \<and> (maximumConsoleLogLevel g = Off \<longrightarrow> console_lines (AddLogMessage a g aMsg aLevel) = 0))
   \<and> map (\<lambda>m. m a g aMsg) public_methods = map (AddLogMessage a g aMsg) message_levels"
proof -
  have lev: "aLevel \<in> set message_levels \<longrightarrow>
      (maximumLogLevel g = Off \<longrightarrow> log_events (AddLogMessage a g aMsg aLevel) = 0)
      \<and> (maximumConsoleLogLevel g = Off \<longrightarrow> console_lines (AddLogMessage a g aMsg aLevel) = 0)"
    for aLevel
    using message_levels_above_Off [of aLevel]
    by (auto simp add: AddLogMessage_def Let_def log_events_def console_lines_def)
  have "m \<in> set public_methods \<longrightarrow>
      (maximumLogLevel g = Off \<longrightarrow> log_events (m a g aMsg) = 0)
      \<and> (maximumConsoleLogLevel g = Off \<longrightarrow> console_lines (m a g aMsg) = 0)"
    using lev [of Fatal] lev [of Error] lev [of Warn] lev [of Info] lev [of Debug] lev [of Trace]
    by (auto simp add: public_methods_def message_levels_def log_Fatal_def log_Error_def
        log_Warn_def log_Info_def log_Debug_def log_Trace_def)
  with lev [of aLevel] show ?thesis
    by (simp add: public_methods_levels)
qed

theorem Off_threshold_silences_sink_witness:
  "log_Trace \<in> set public_methods \<and> Trace \<in> set message_levels
   \<and> maximumLogLevel
        \<lparr>logToConsole = True, maximumConsoleLogLevel = Off, maximumLogLevel = Off\<rparr> = Off
   \<and> maximumConsoleLogLevel
        \<lparr>logToConsole = True, maximumConsoleLogLevel = Off, maximumLogLevel = Off\<rparr> = Off
   \<and> log_events (log_Trace \<lparr>getHours = 9, getMinutes = 5, getSeconds = 30\<rparr>
        \<lparr>logToConsole = True, maximumConsoleLogLevel = Off, maximumLogLevel = Off\<rparr>
        ''hi'') = 0
   \<and> console_lines (log_Trace \<lparr>getHours = 9, getMinutes = 5, getSeconds = 30\<rparr>
        \<lparr>logToConsole = True, maximumConsoleLogLevel = Off, maximumLogLevel = Off\<rparr>
        ''hi'') = 0
   \<and> log_events (AddLogMessage \<lparr>getHours = 9, getMinutes = 5, getSeconds = 30\<rparr>
        \<lparr>logToConsole = True, maximumConsoleLogLevel = Off, maximumLogLevel = Off\<rparr>
        ''hi'' Trace) = 0
   \<and> console_lines (AddLogMessage \<lparr>getHours = 9, getMinutes = 5, getSeconds = 30\<rparr>
        \<lparr>logToConsole = True, maximumConsoleLogLevel = Off, maximumLogLevel = Off\<rparr>
        ''hi'' Trace) = 0"
proof -
  have m: "log_Trace \<in> set public_methods" and l: "Trace \<in> set message_levels"
    by (simp_all add: public_methods_def message_levels_def)
  have g: "maximumLogLevel
        \<lparr>logToConsole = True, maximumConsoleLogLevel = Off, maximumLogLevel = Off\<rparr> = Off"
    "maximumConsoleLogLevel
        \<lparr>logToConsole = True, maximumConsoleLogLevel = Off, maximumLogLevel = Off\<rparr> = Off"
    by simp_all
  from Off_threshold_silences_sink [of log_Trace
          "\<lparr>logToConsole = True, maximumConsoleLogLevel = Off, maximumLogLevel = Off\<rparr>"
          "\<lparr>getHours = 9, getMinutes = 5, getSeconds = 30\<rparr>" "''hi''" Trace] m l g
  show ?thesis by blast
qed

section \<open>Properties of the websocket client\<close>

subsection \<open>What each method leaves unchanged\<close>

lemma effect_simps [simp]:
  "ws (effect e t) = ws t"
  "sockets (effect e t) = sockets t"
  "promises (effect e t) = promises t"
  "trace (effect e t) = trace t @ [(e, Connected t)]"
  "Connected (effect e t) = Connected t"
  by (simp_all add: effect_def Connected_def)

lemma addEventListener_simps [simp]:
  "ws (addEventListener c ty l t) = ws t"
  "promises (addEventListener c ty l t) = promises t"
  "trace (addEventListener c ty l t) = trace t"
  "length (sockets (addEventListener c ty l t)) = length (sockets t)"
  "Connected (addEventListener c ty l t) = Connected t"
  by (simp_all add: addEventListener_def Connected_def Let_def)

lemma removeEventListener_simps [simp]:
  "ws (removeEventListener c ty l t) = ws t"
  "promises (removeEventListener c ty l t) = promises t"
  "trace (removeEventListener c ty l t) = trace t"
  "length (sockets (removeEventListener c ty l t)) = length (sockets t)"
  "Connected (removeEventListener c ty l t) = Connected t"
  by (simp_all add: removeEventListener_def Connected_def Let_def)

lemma settle_simps [simp]:
  "ws (settle c v t) = ws t"
  "sockets (settle c v t) = sockets t"
  "trace (settle c v t) = trace t"
  "length (promises (settle c v t)) = length (promises t)"
  "Connected (settle c v t) = Connected t"
  by (simp_all add: settle_def Connected_def)

lemma listeners_of_effect [simp]: "listeners_of (effect e t) c ty = listeners_of t c ty"
  by (simp add: listeners_of_def)

lemma listeners_of_settle [simp]: "listeners_of (settle c' v t) c ty = listeners_of t c ty"
  by (simp add: listeners_of_def)

lemma Disconnect_not_connected: "\<not> Connected t \<Longrightarrow> Disconnect t = t"
  by (simp add: Disconnect_def)

lemma Disconnect_connected:
  "Connected t \<Longrightarrow>
     Disconnect t = t\<lparr>ws := None,
        trace := trace t @ [(ShutdownConnection, True), (ws_close (the (ws t)), True),
                            (Emit ''close'', False)]\<rparr>"
  by (simp add: Disconnect_def Let_def effect_def Connected_def)

lemma Connected_Disconnect [simp]: "\<not> Connected (Disconnect t)"
  by (cases "Connected t") (simp_all add: Disconnect_connected Disconnect_not_connected, simp add: Connected_def)

lemma Disconnect_fields [simp]:
  "sockets (Disconnect t) = sockets t"
  "promises (Disconnect t) = promises t"
  "ws (Disconnect t) = None"
  by (cases "Connected t"; simp add: Disconnect_connected Disconnect_not_connected; simp add: Connected_def)+

lemma listeners_of_Disconnect [simp]: "listeners_of (Disconnect t) c ty = listeners_of t c ty"
  by (simp add: listeners_of_def)

lemma Connect_result:
  "Connect aUrl t =
     (length (sockets t),
      t\<lparr>sockets := sockets t @
            [\<lparr>url = aUrl, listeners = [(ev_open, OpenListener), (ev_close, conErrorCallback)]\<rparr>],
        promises := promises t @ [Pending]\<rparr>)"
  by (simp add: Connect_def Let_def addEventListener_def)

lemma open_listener_result:
  assumes "c < length (sockets t)"
      and "listeners (sockets t ! c) = [(ev_open, OpenListener), (ev_close, conErrorCallback)]"
  shows "open_listener c t =
           t\<lparr>ws := Some c,
             sockets := (sockets t)[c := (sockets t ! c)\<lparr>listeners :=
                [(ev_open, OpenListener), (ev_message, MessageListener),
                 (ev_close, DisconnectListener)]\<rparr>],
             trace := trace t @ [(InitializeConnection, True)]\<rparr>"
  using assms
  by (simp add: open_listener_def Let_def addEventListener_def removeEventListener_def
      effect_def Connected_def)

lemma sample_connected_eq:
  "sample_connected =
     \<lparr> ws = Some 0,
       sockets = [\<lparr>url = ''ws://host'',
                   listeners = [(ev_open, OpenListener), (ev_message, MessageListener),
                                (ev_close, DisconnectListener)]\<rparr>],
       promises = [Resolved],
       trace = [(InitializeConnection, True)] \<rparr>"
  by (simp add: sample_connected_def run_def new_ButtplugWebsocketClient_def Connect_result
      dispatch_def listeners_of_def open_listener_result open_listener_resume_def settle_def)

lemma Connected_trace_update [simp]: "Connected (t\<lparr>trace := x\<rparr>) = Connected t"
  by (simp add: Connected_def)

lemma listeners_of_trace_update [simp]:
  "listeners_of (t\<lparr>trace := x\<rparr>) c ty = listeners_of t c ty"
  by (simp add: listeners_of_def)

lemma message_listener_text:
  "listeners_of t c ev_message = [MessageListener] \<Longrightarrow>
     dispatch FromJSON c ev_message (MessageData (Text s)) t
       = (case FromJSON s of
            None \<Rightarrow> t\<lparr>trace := trace t @ [(Raised DecodeFailed, Connected t)]\<rparr>
          | Some msgs \<Rightarrow> t\<lparr>trace := trace t @ [(ParseMessages msgs, Connected t)]\<rparr>)"
  by (simp add: dispatch_def ParseIncomingMessage_def raise_or_def effect_def
      split: option.splits)

text \<open>
  On every state the event loop reaches, each socket has its promise: the two lists grow
  together, in \<open>Connect\<close> only.
\<close>

lemma heap_call_listener:
  "length (sockets (call_listener FromJSON c pl l t)) = length (sockets t)
   \<and> length (promises (call_listener FromJSON c pl l t)) = length (promises t)"
proof (cases l)
  case OpenListener
  then show ?thesis by (simp add: open_listener_def Let_def)
next
  case conErrorCallback
  then show ?thesis by (cases pl) (simp_all add: call_conErrorCallback_def)
next
  case MessageListener
  then show ?thesis
    by (cases pl)
       (simp_all add: raise_or_def ParseIncomingMessage_def split: data.splits option.splits)
next
  case DisconnectListener
  then show ?thesis by simp
qed

lemma heap_fold_listeners:
  "length (sockets (fold (call_listener FromJSON c pl) ls t)) = length (sockets t)
   \<and> length (promises (fold (call_listener FromJSON c pl) ls t)) = length (promises t)"
  by (induction ls arbitrary: t) (simp_all add: heap_call_listener)

lemma heap_step:
  assumes "length (promises t) = length (sockets t)"
  shows "length (promises (step FromJSON toJSON t e)) = length (sockets (step FromJSON toJSON t e))"
proof (cases e)
  case (call_Connect aUrl)
  with assms show ?thesis by (simp add: Connect_result)
next
  case call_Disconnect
  with assms show ?thesis by simp
next
  case (call_Send aMsg)
  with assms show ?thesis by (simp add: raise_or_def Send_def)
next
  case (socket_open c)
  with assms show ?thesis by (simp add: dispatch_def heap_fold_listeners)
next
  case (socket_message c d)
  with assms show ?thesis by (simp add: dispatch_def heap_fold_listeners)
next
  case (socket_close c ev)
  with assms show ?thesis by (simp add: dispatch_def heap_fold_listeners)
next
  case (handshake_settled c r)
  with assms show ?thesis by (cases r) (simp_all add: open_listener_resume_def)
next
  case (reader_load s)
  with assms show ?thesis by (simp add: raise_or_def OnReaderLoad_def split: option.splits)
qed

lemma heap_run:
  "length (promises t) = length (sockets t) \<Longrightarrow>
     length (promises (run FromJSON toJSON es t)) = length (sockets (run FromJSON toJSON es t))"
  unfolding run_def by (induction es arbitrary: t) (simp_all add: heap_step)

subsection \<open>Well-formed clients\<close>

lemma fold_invariant:
  assumes "P t" and "\<And>l u. l \<in> set ls \<Longrightarrow> P u \<Longrightarrow> P (f l u)"
  shows "P (fold f ls t)"
  using assms by (induction ls arbitrary: t) simp_all

lemma wf_trace_update [simp]: "well_formed (t\<lparr>trace := x\<rparr>) = well_formed t"
  by (simp add: well_formed_def)

lemma wf_effect [simp]: "well_formed (effect e t) = well_formed t"
  by (simp add: well_formed_def)

lemma wf_ws_update [simp]: "well_formed (t\<lparr>ws := x\<rparr>) = well_formed t"
  by (simp add: well_formed_def)

lemma wf_settle [simp]: "well_formed (settle c v t) = well_formed t"
  by (simp add: well_formed_def)

lemma list_all_update:
  "list_all P xs \<Longrightarrow> P x \<Longrightarrow> list_all P (xs[i := x])"
  using set_update_subset_insert [of xs i x] by (auto simp add: list_all_iff)

lemma list_all_nth: "list_all P xs \<Longrightarrow> i < length xs \<Longrightarrow> P (xs ! i)"
  by (simp add: list_all_length)

lemma wf_addEventListener:
  assumes "registered (ty, l)" and "well_formed t"
  shows "well_formed (addEventListener c ty l t)"
proof (cases "c < length (sockets t)")
  case True
  let ?P = "\<lambda>s. list_all registered (listeners s)"
  from assms(2) have all: "list_all ?P (sockets t)"
    and len: "length (promises t) = length (sockets t)"
    by (simp_all add: well_formed_def)
  from all True have "?P (sockets t ! c)" by (rule list_all_nth)
  with assms(1) have "?P ((sockets t ! c)\<lparr>listeners := listeners (sockets t ! c) @ [(ty, l)]\<rparr>)"
    by simp
  with all have "list_all ?P ((sockets t)[c :=
      (sockets t ! c)\<lparr>listeners := listeners (sockets t ! c) @ [(ty, l)]\<rparr>])"
    by (rule list_all_update)
  with all len True show ?thesis
    by (simp add: well_formed_def addEventListener_def Let_def)
next
  case False
  with assms(2) show ?thesis by (simp add: addEventListener_def)
qed

lemma wf_removeEventListener:
  assumes "well_formed t"
  shows "well_formed (removeEventListener c ty l t)"
proof (cases "c < length (sockets t)")
  case True
  let ?P = "\<lambda>s. list_all registered (listeners s)"
  from assms have all: "list_all ?P (sockets t)"
    and len: "length (promises t) = length (sockets t)"
    by (simp_all add: well_formed_def)
  from all True have "?P (sockets t ! c)" by (rule list_all_nth)
  then have "?P ((sockets t ! c)\<lparr>listeners := removeAll (ty, l) (listeners (sockets t ! c))\<rparr>)"
    by (simp add: list_all_iff)
  with all have "list_all ?P ((sockets t)[c :=
      (sockets t ! c)\<lparr>listeners := removeAll (ty, l) (listeners (sockets t ! c))\<rparr>])"
    by (rule list_all_update)
  with len True show ?thesis
    by (simp add: well_formed_def removeEventListener_def Let_def)
next
  case False
  with assms show ?thesis by (simp add: removeEventListener_def)
qed

lemma wf_Disconnect: "well_formed t \<Longrightarrow> well_formed (Disconnect t)"
  by (simp add: well_formed_def)

lemma wf_open_listener: "well_formed t \<Longrightarrow> well_formed (open_listener c t)"
  by (simp add: open_listener_def Let_def wf_addEventListener wf_removeEventListener)

lemma wf_raise_or:
  "well_formed t \<Longrightarrow> (\<And>t'. r = Inr t' \<Longrightarrow> well_formed t') \<Longrightarrow> well_formed (raise_or t r)"
  by (cases r) (simp_all add: raise_or_def)

lemma wf_ParseIncomingMessage:
  "well_formed t \<Longrightarrow> ParseIncomingMessage FromJSON d t = Inr t' \<Longrightarrow> well_formed t'"
  by (auto simp add: ParseIncomingMessage_def split: data.splits option.splits)

lemma wf_call_listener:
  "well_formed t \<Longrightarrow> well_formed (call_listener FromJSON c pl l t)"
proof (cases l)
  case OpenListener
  then show "well_formed t \<Longrightarrow> ?thesis" by (simp add: wf_open_listener)
next
  case conErrorCallback
  then show "well_formed t \<Longrightarrow> ?thesis"
    by (cases pl) (simp_all add: call_conErrorCallback_def)
next
  case MessageListener
  then show "well_formed t \<Longrightarrow> ?thesis"
    by (cases pl) (simp_all add: wf_raise_or wf_ParseIncomingMessage)
next
  case DisconnectListener
  then show "well_formed t \<Longrightarrow> ?thesis" by (simp add: wf_Disconnect)
qed

lemma wf_dispatch: "well_formed t \<Longrightarrow> well_formed (dispatch FromJSON c ty pl t)"
  unfolding dispatch_def by (rule fold_invariant) (simp_all add: wf_call_listener)

lemma wf_Connect: "well_formed t \<Longrightarrow> well_formed (snd (Connect aUrl t))"
  by (simp add: Connect_result well_formed_def)

lemma wf_step: "well_formed t \<Longrightarrow> well_formed (step FromJSON toJSON t e)"
proof (cases e)
  case (call_Send aMsg)
  then show "well_formed t \<Longrightarrow> ?thesis"
    by (simp add: raise_or_def Send_def)
next
  case (handshake_settled c r)
  then show "well_formed t \<Longrightarrow> ?thesis"
    by (cases r) (simp_all add: open_listener_resume_def)
next
  case (reader_load s)
  then show "well_formed t \<Longrightarrow> ?thesis"
    by (simp add: raise_or_def OnReaderLoad_def split: option.splits)
qed (simp_all add: wf_Connect wf_Disconnect wf_dispatch)

lemma wf_run: "well_formed t \<Longrightarrow> well_formed (run FromJSON toJSON es t)"
  unfolding run_def by (induction es arbitrary: t) (simp_all add: wf_step)



subsection \<open>The phases of a Connect call\<close>






lemma awaiting_open_trace [simp]: "awaiting_open c (t\<lparr>trace := x\<rparr>) = awaiting_open c t"
  by (simp add: awaiting_open_def)

lemma handshake_running_trace [simp]:
  "handshake_running c (t\<lparr>trace := x\<rparr>) = handshake_running c t"
  by (simp add: handshake_running_def)













subsection \<open>Connect\<close>




text \<open>
  The condition on the handshake phase is needed: \<open>res()\<close> does not read \<open>_ws\<close>, so a
  \<open>close\<close> event that arrives while the handshake runs tears the session down and the
  call is resolved all the same.
\<close>

lemma close_during_handshake:
  "\<not> Connected (run sample_FromJSON sample_toJSON
       [call_Connect ''ws://host'', socket_open 0, socket_close 0 1006,
        handshake_settled 0 (Returned True)] new_ButtplugWebsocketClient)
   \<and> promises (run sample_FromJSON sample_toJSON
       [call_Connect ''ws://host'', socket_open 0, socket_close 0 1006,
        handshake_settled 0 (Returned True)] new_ButtplugWebsocketClient) = [Resolved]"
  by (simp add: run_def new_ButtplugWebsocketClient_def Connect_result dispatch_def
      listeners_of_def open_listener_result open_listener_resume_def settle_def
      Connected_def Disconnect_def effect_def Let_def)

text \<open>
  Claim C2, evaluated on the code: \<open>Connect\<close>, the \<open>open\<close> event, then a handshake that
  reports failure. The promise of the call is rejected (with no value), as the claim says.
  But the socket stays in \<open>_ws\<close>, so \<open>Connected\<close> is true, and the \<open>message\<close> listener and
  the \<open>close\<close> listener \<open>Disconnect\<close> stay on the socket; a \<open>Send\<close> after the failed
  \<open>Connect\<close> is written to it.
\<close>

theorem failed_handshake_leaves_client_connected:
  "promises (run sample_FromJSON sample_toJSON
       [call_Connect ''ws://host'', socket_open 0, handshake_settled 0 (Returned False)]
       new_ButtplugWebsocketClient) = [Rejected None]
   \<and> Connected (run sample_FromJSON sample_toJSON
       [call_Connect ''ws://host'', socket_open 0, handshake_settled 0 (Returned False)]
       new_ButtplugWebsocketClient)
   \<and> listeners_of (run sample_FromJSON sample_toJSON
       [call_Connect ''ws://host'', socket_open 0, handshake_settled 0 (Returned False)]
       new_ButtplugWebsocketClient) 0 ev_message = [MessageListener]
   \<and> listeners_of (run sample_FromJSON sample_toJSON
       [call_Connect ''ws://host'', socket_open 0, handshake_settled 0 (Returned False)]
       new_ButtplugWebsocketClient) 0 ev_close = [DisconnectListener]
   \<and> effects (run sample_FromJSON sample_toJSON
       [call_Connect ''ws://host'', socket_open 0, handshake_settled 0 (Returned False),
        call_Send ''m''] new_ButtplugWebsocketClient)
       = [InitializeConnection, ws_send 0 ''[m]'']"
  by (simp add: run_def new_ButtplugWebsocketClient_def Connect_result dispatch_def
      listeners_of_def open_listener_result open_listener_resume_def settle_def
      Connected_def Send_def raise_or_def effects_def effect_def sample_toJSON_def)

subsection \<open>Disconnect\<close>

text \<open>
  Claim C3. \<open>Disconnect\<close> on a client that is not connected changes nothing. A second
  \<open>Disconnect\<close> after a first changes nothing, from any state. From a connected state,
  two calls in a row call \<open>ShutdownConnection\<close> once and emit \<open>close\<close> once; and so do
  one explicit call and one call made by the \<open>close\<close> listener of the socket when its
  \<open>close\<close> event arrives, in either order.
\<close>

theorem Disconnect_idempotent:
  "(\<not> Connected t \<longrightarrow> Disconnect t = t)
   \<and> Disconnect (Disconnect t) = Disconnect t
   \<and> (Connected t \<longrightarrow>
        trace (Disconnect (Disconnect t))
          = trace t @ [(ShutdownConnection, True), (ws_close (the (ws t)), True),
                       (Emit ''close'', False)]
        \<and> occurrences ShutdownConnection (Disconnect (Disconnect t))
            = occurrences ShutdownConnection t + 1
        \<and> occurrences (Emit ''close'') (Disconnect (Disconnect t))
            = occurrences (Emit ''close'') t + 1)
   \<and> (Connected t \<and> listeners_of t c ev_close = [DisconnectListener] \<longrightarrow>
        step FromJSON toJSON (step FromJSON toJSON t call_Disconnect) (socket_close c ev)
          = Disconnect t
        \<and> step FromJSON toJSON (step FromJSON toJSON t (socket_close c ev)) call_Disconnect
          = Disconnect t)"
proof -
  have idem: "Disconnect (Disconnect t) = Disconnect t"
    by (rule Disconnect_not_connected) simp
  have tr: "Connected t \<Longrightarrow> trace (Disconnect t)
          = trace t @ [(ShutdownConnection, True), (ws_close (the (ws t)), True),
                       (Emit ''close'', False)]"
    by (simp add: Disconnect_connected)
  show ?thesis
    by (simp add: idem tr Disconnect_not_connected occurrences_def effects_def dispatch_def)
qed

theorem Disconnect_idempotent_witness:
  "\<not> Connected (new_ButtplugWebsocketClient :: string ButtplugWebsocketClient)
   \<and> Disconnect (new_ButtplugWebsocketClient :: string ButtplugWebsocketClient)
       = new_ButtplugWebsocketClient
   \<and> Connected sample_connected
   \<and> listeners_of sample_connected 0 ev_close = [DisconnectListener]
   \<and> occurrences ShutdownConnection (Disconnect (Disconnect sample_connected))
       = occurrences ShutdownConnection sample_connected + 1
   \<and> occurrences (Emit ''close'') (Disconnect (Disconnect sample_connected))
       = occurrences (Emit ''close'') sample_connected + 1
   \<and> step sample_FromJSON sample_toJSON
        (step sample_FromJSON sample_toJSON sample_connected call_Disconnect)
        (socket_close 0 1000) = Disconnect sample_connected"
proof -
  have n: "\<not> Connected (new_ButtplugWebsocketClient :: string ButtplugWebsocketClient)"
    by (simp add: new_ButtplugWebsocketClient_def Connected_def)
  have c: "Connected sample_connected"
    by (simp add: sample_connected_eq Connected_def)
  have l: "listeners_of sample_connected 0 ev_close = [DisconnectListener]"
    by (simp add: sample_connected_eq listeners_of_def)
  from Disconnect_idempotent [of new_ButtplugWebsocketClient 0 sample_FromJSON sample_toJSON 1000]
       Disconnect_idempotent [of sample_connected 0 sample_FromJSON sample_toJSON 1000] n c l
  show ?thesis by blast
qed

text \<open>
  On every state the event loop reaches from a new client, every \<open>close\<close> that was emitted
  was emitted with \<open>Connected\<close> false.
\<close>

lemma closes_effect:
  "closes_seen_disconnected t \<Longrightarrow> close_entry_ok (e, Connected t) \<Longrightarrow>
     closes_seen_disconnected (effect e t)"
  by (simp add: closes_seen_disconnected_def)

lemma closes_same_trace:
  "trace t' = trace t \<Longrightarrow> closes_seen_disconnected t \<Longrightarrow> closes_seen_disconnected t'"
  by (simp add: closes_seen_disconnected_def)

lemma closes_Disconnect:
  "closes_seen_disconnected t \<Longrightarrow> closes_seen_disconnected (Disconnect t)"
  by (cases "Connected t")
     (simp_all add: Disconnect_connected Disconnect_not_connected closes_seen_disconnected_def)

lemma closes_open_listener:
  "closes_seen_disconnected t \<Longrightarrow> closes_seen_disconnected (open_listener c t)"
  by (simp add: open_listener_def Let_def closes_seen_disconnected_def)

lemma closes_raise_or:
  assumes "closes_seen_disconnected t" and "\<And>t'. r = Inr t' \<Longrightarrow> closes_seen_disconnected t'"
  shows "closes_seen_disconnected (raise_or t r)"
  using assms by (cases r) (simp_all add: raise_or_def closes_effect)

lemma closes_ParseIncomingMessage:
  "closes_seen_disconnected t \<Longrightarrow> ParseIncomingMessage FromJSON d t = Inr t' \<Longrightarrow>
     closes_seen_disconnected t'"
  by (auto simp add: ParseIncomingMessage_def closes_effect split: data.splits option.splits)

lemma closes_OnReaderLoad:
  "closes_seen_disconnected t \<Longrightarrow> OnReaderLoad FromJSON s t = Inr t' \<Longrightarrow>
     closes_seen_disconnected t'"
  by (auto simp add: OnReaderLoad_def closes_effect split: option.splits)

lemma closes_Send:
  "closes_seen_disconnected t \<Longrightarrow> Send toJSON aMsg t = Inr t' \<Longrightarrow>
     closes_seen_disconnected t'"
  by (auto simp add: Send_def closes_effect split: if_splits)

lemma closes_call_listener:
  "closes_seen_disconnected t \<Longrightarrow> closes_seen_disconnected (call_listener FromJSON c pl l t)"
proof (cases l)
  case OpenListener
  then show "closes_seen_disconnected t \<Longrightarrow> ?thesis"
    by (simp add: closes_open_listener)
next
  case conErrorCallback
  then show "closes_seen_disconnected t \<Longrightarrow> ?thesis"
    by (cases pl) (simp_all add: call_conErrorCallback_def closes_seen_disconnected_def)
next
  case MessageListener
  then show "closes_seen_disconnected t \<Longrightarrow> ?thesis"
    by (cases pl) (simp_all add: closes_raise_or closes_ParseIncomingMessage)
next
  case DisconnectListener
  then show "closes_seen_disconnected t \<Longrightarrow> ?thesis"
    by (simp add: closes_Disconnect)
qed

lemma closes_fold_listeners:
  "closes_seen_disconnected t \<Longrightarrow>
     closes_seen_disconnected (fold (call_listener FromJSON c pl) ls t)"
  by (induction ls arbitrary: t) (simp_all add: closes_call_listener)

lemma closes_step:
  "closes_seen_disconnected t \<Longrightarrow> closes_seen_disconnected (step FromJSON toJSON t e)"
proof (cases e)
  case (call_Connect aUrl)
  then show "closes_seen_disconnected t \<Longrightarrow> ?thesis"
    by (simp add: Connect_result closes_seen_disconnected_def)
next
  case call_Disconnect
  then show "closes_seen_disconnected t \<Longrightarrow> ?thesis"
    by (simp add: closes_Disconnect)
next
  case (call_Send aMsg)
  then show "closes_seen_disconnected t \<Longrightarrow> ?thesis"
    by (simp add: closes_raise_or closes_Send)
next
  case (socket_open c)
  then show "closes_seen_disconnected t \<Longrightarrow> ?thesis"
    by (simp add: dispatch_def closes_fold_listeners)
next
  case (socket_message c d)
  then show "closes_seen_disconnected t \<Longrightarrow> ?thesis"
    by (simp add: dispatch_def closes_fold_listeners)
next
  case (socket_close c ev)
  then show "closes_seen_disconnected t \<Longrightarrow> ?thesis"
    by (simp add: dispatch_def closes_fold_listeners)
next
  case (handshake_settled c r)
  then show "closes_seen_disconnected t \<Longrightarrow> ?thesis"
    by (cases r) (simp_all add: open_listener_resume_def closes_seen_disconnected_def)
next
  case (reader_load s)
  then show "closes_seen_disconnected t \<Longrightarrow> ?thesis"
    by (simp add: closes_raise_or closes_OnReaderLoad)
qed

lemma closes_run:
  "closes_seen_disconnected t \<Longrightarrow> closes_seen_disconnected (run FromJSON toJSON es t)"
  unfolding run_def by (induction es arbitrary: t) (simp_all add: closes_step)

text \<open>
  Claim C10. \<open>Connected\<close> is true exactly when \<open>_ws\<close> holds a socket. \<open>Disconnect\<close>
  leaves \<open>_ws\<close> empty and \<open>Connected\<close> false, from any state; from a connected state it
  calls \<open>ShutdownConnection\<close> and closes the socket with \<open>Connected\<close> true, then clears
  \<open>_ws\<close>, then emits \<open>close\<close> with \<open>Connected\<close> false. Whatever calls and events a client
  goes through, every \<open>close\<close> it emits reaches its subscribers with \<open>Connected\<close> false.
\<close>

theorem close_emitted_after_reference_cleared:
  "Connected t = (\<exists>c. ws t = Some c)
   \<and> ws (Disconnect t) = None \<and> \<not> Connected (Disconnect t)
   \<and> (Connected t \<longrightarrow>
        trace (Disconnect t)
          = trace t @ [(ShutdownConnection, True), (ws_close (the (ws t)), True),
                       (Emit ''close'', False)])
   \<and> closes_seen_disconnected (run FromJSON toJSON es new_ButtplugWebsocketClient)
   \<and> (closes_seen_disconnected t \<longrightarrow> closes_seen_disconnected (run FromJSON toJSON es t))"
proof -
  have "closes_seen_disconnected (new_ButtplugWebsocketClient :: 'a ButtplugWebsocketClient)"
    by (simp add: closes_seen_disconnected_def new_ButtplugWebsocketClient_def)
  then have "closes_seen_disconnected (run FromJSON toJSON es new_ButtplugWebsocketClient)"
    by (rule closes_run)
  then show ?thesis
    by (simp add: closes_run Disconnect_connected) (simp add: Connected_def)
qed

theorem close_emitted_after_reference_cleared_witness:
  "Connected sample_connected
   \<and> closes_seen_disconnected sample_connected
   \<and> trace (Disconnect sample_connected)
       = [(InitializeConnection, True), (ShutdownConnection, True), (ws_close 0, True),
          (Emit ''close'', False)]
   \<and> closes_seen_disconnected (run sample_FromJSON sample_toJSON
        [call_Disconnect, socket_close 0 1000] sample_connected)"
proof -
  have c: "Connected sample_connected"
    and i: "closes_seen_disconnected sample_connected"
    and w: "ws sample_connected = Some 0"
    and tr: "trace sample_connected = [(InitializeConnection, True)]"
    by (simp_all add: sample_connected_eq Connected_def closes_seen_disconnected_def)
  from close_emitted_after_reference_cleared [of sample_connected sample_FromJSON sample_toJSON
         "[call_Disconnect, socket_close 0 1000]"] c i w tr
  show ?thesis by simp
qed

subsection \<open>Send\<close>

text \<open>
  Claim C4. On a client that is not connected, \<open>Send\<close> throws the usage error
  \<open>NotConnected\<close>; the caller gets the exception and nothing is written to any socket.
  On a connected client \<open>Send\<close> returns.
\<close>

theorem Send_requires_connection:
  "(\<not> Connected t \<longrightarrow>
      Send toJSON aMsg t = Inl NotConnected
      \<and> step FromJSON toJSON t (call_Send aMsg) = t\<lparr>trace := trace t @ [(Raised NotConnected, False)]\<rparr>
      \<and> filter is_ws_send (effects (step FromJSON toJSON t (call_Send aMsg)))
          = filter is_ws_send (effects t))
   \<and> (Connected t \<longrightarrow> (\<exists>t'. Send toJSON aMsg t = Inr t'))"
  by (simp add: Send_def raise_or_def effects_def effect_def)

theorem Send_requires_connection_witness:
  "\<not> Connected (new_ButtplugWebsocketClient :: string ButtplugWebsocketClient)
   \<and> Send sample_toJSON ''m'' new_ButtplugWebsocketClient = Inl NotConnected
   \<and> Connected sample_connected
   \<and> Send sample_toJSON ''m'' sample_connected \<noteq> Inl NotConnected"
proof -
  have n: "\<not> Connected (new_ButtplugWebsocketClient :: string ButtplugWebsocketClient)"
    by (simp add: new_ButtplugWebsocketClient_def Connected_def)
  have c: "Connected sample_connected"
    by (simp add: sample_connected_eq Connected_def)
  from Send_requires_connection [of new_ButtplugWebsocketClient sample_toJSON "''m''" sample_FromJSON]
       Send_requires_connection [of sample_connected sample_toJSON "''m''" sample_FromJSON] n c
  show ?thesis by auto
qed

text \<open>
  Claim C9. On a connected client, \<open>Send\<close> does one thing: it writes to the socket in
  \<open>_ws\<close> the string made of \<open>[\<close>, the encoded message and \<open>]\<close>.
\<close>

theorem Send_frames_single_message:
  assumes "Connected t"
  shows "\<exists>c. ws t = Some c
           \<and> Send toJSON aMsg t
               = Inr (t\<lparr>trace := trace t @ [(ws_send c (''['' @ toJSON aMsg @ '']''), True)]\<rparr>)"
  using assms by (auto simp add: Send_def effect_def Connected_def)

theorem Send_frames_single_message_witness:
  "Connected sample_connected
   \<and> Send sample_toJSON ''m'' sample_connected
       = Inr (sample_connected\<lparr>trace := trace sample_connected @ [(ws_send 0 ''[m]'', True)]\<rparr>)"
proof -
  have c: "Connected sample_connected" and w: "ws sample_connected = Some 0"
    by (simp_all add: sample_connected_eq Connected_def)
  from Send_frames_single_message [OF c, of sample_toJSON "''m''"] c w
  show ?thesis by (simp add: sample_toJSON_def)
qed

subsection \<open>Inbound frames\<close>

text \<open>
  Claim C8. A text frame that decodes to the messages \<open>msgs\<close> makes
  \<open>ParseIncomingMessage\<close> call \<open>ParseMessages\<close> once, with \<open>msgs\<close> as decoded, and do
  nothing else. So does the \<open>message\<close> event of a socket that carries the one listener the
  \<open>open\<close> listener registers, which is what a socket made by \<open>Connect\<close> carries after its
  \<open>open\<close> event.
\<close>

theorem text_frame_dispatched_once:
  assumes "FromJSON s = Some msgs"
  shows "ParseIncomingMessage FromJSON (Text s) t
           = Inr (t\<lparr>trace := trace t @ [(ParseMessages msgs, Connected t)]\<rparr>)
       \<and> (listeners_of t c ev_message = [MessageListener] \<longrightarrow>
            step FromJSON toJSON t (socket_message c (Text s))
              = t\<lparr>trace := trace t @ [(ParseMessages msgs, Connected t)]\<rparr>
            \<and> filter is_ParseMessages (effects (step FromJSON toJSON t (socket_message c (Text s))))
              = filter is_ParseMessages (effects t) @ [ParseMessages msgs])
       \<and> (Connect aUrl t = (c', t1) \<longrightarrow>
            listeners_of (step FromJSON toJSON t1 (socket_open c')) c' ev_message
              = [MessageListener])"
proof -
  have a: "ParseIncomingMessage FromJSON (Text s) t
           = Inr (t\<lparr>trace := trace t @ [(ParseMessages msgs, Connected t)]\<rparr>)"
    using assms by (simp add: ParseIncomingMessage_def effect_def)
  have b: "Connect aUrl t = (c', t1) \<Longrightarrow>
            listeners_of (step FromJSON toJSON t1 (socket_open c')) c' ev_message
              = [MessageListener]"
    by (auto simp add: Connect_result dispatch_def listeners_of_def open_listener_result)
  show ?thesis
    using b by (simp add: a dispatch_def raise_or_def effects_def)
qed

theorem text_frame_dispatched_once_witness:
  "sample_FromJSON ''[a,b]'' = Some [''a'', ''b'']
   \<and> listeners_of sample_connected 0 ev_message = [MessageListener]
   \<and> trace (step sample_FromJSON sample_toJSON sample_connected (socket_message 0 (Text ''[a,b]'')))
       = [(InitializeConnection, True), (ParseMessages [''a'', ''b''], True)]"
proof -
  have h: "sample_FromJSON ''[a,b]'' = Some [''a'', ''b'']"
    by (simp add: sample_FromJSON_def)
  have l: "listeners_of sample_connected 0 ev_message = [MessageListener]"
    by (simp add: sample_connected_eq listeners_of_def)
  have c: "Connected sample_connected" and tr: "trace sample_connected = [(InitializeConnection, True)]"
    by (simp_all add: sample_connected_eq Connected_def)
  from text_frame_dispatched_once [where FromJSON = sample_FromJSON and s = "''[a,b]''"
      and msgs = "[''a'', ''b'']" and t = sample_connected and c = 0 and toJSON = sample_toJSON]
  show ?thesis
    by (simp add: h l c tr)
qed

lemma message_listener_blob:
  "listeners_of t c ev_message = [MessageListener] \<Longrightarrow>
     dispatch FromJSON c ev_message (MessageData (Blob b)) t
       = t\<lparr>trace := trace t @ [(readAsText b, Connected t)]\<rparr>"
  by (simp add: dispatch_def ParseIncomingMessage_def raise_or_def effect_def)

lemma reader_load_result:
  "raise_or t (OnReaderLoad FromJSON s t)
     = (case FromJSON s of
          None \<Rightarrow> t\<lparr>trace := trace t @ [(Raised DecodeFailed, Connected t)]\<rparr>
        | Some msgs \<Rightarrow> t\<lparr>trace := trace t @ [(ParseMessages msgs, Connected t)]\<rparr>)"
  by (simp add: OnReaderLoad_def raise_or_def effect_def split: option.splits)

text \<open>
  Claim C7, as stated, has a decode failure surfaced as an error-kind notification. The
  client has none: \<open>ParseIncomingMessage\<close> and \<open>OnReaderLoad\<close> do not catch what
  \<open>FromJSON\<close> throws, and the listeners that call them do not either, so both methods end
  with the exception and the client emits no event for the frame. (The \<open>Raised\<close> entry of
  the trace is the event loop's record of the exception that left the listener.)
\<close>

theorem decode_failure_not_notified:
  "sample_FromJSON ''{bad'' = None
   \<and> ParseIncomingMessage sample_FromJSON (Text ''{bad'') sample_connected = Inl DecodeFailed
   \<and> OnReaderLoad sample_FromJSON ''{bad'' sample_connected = Inl DecodeFailed
   \<and> filter is_Emit (effects (run sample_FromJSON sample_toJSON
        [socket_message 0 (Text ''{bad'')] sample_connected)) = []
   \<and> filter is_Emit (effects (run sample_FromJSON sample_toJSON
        [socket_message 0 (Blob ''{bad''), reader_load ''{bad''] sample_connected)) = []"
  by (simp add: sample_FromJSON_def ParseIncomingMessage_def OnReaderLoad_def run_def
      effects_def sample_connected_eq dispatch_def listeners_of_def raise_or_def effect_def)

text \<open>
  Claim C7, amended. For every inbound frame whose decode fails, be it a text frame or the
  text loaded from a blob frame, the method that decodes it ends with the exception
  \<open>DecodeFailed\<close>, which leaves the listener uncaught; the client emits nothing for it,
  neither an error event nor \<open>close\<close>. On a connected client whose socket carries the
  message listener, \<open>_ws\<close> and the listeners are as before, so the client is still
  connected, and a frame that decodes, arriving next as text or as a blob, is handed to
  \<open>ParseMessages\<close> with its messages as decoded.
\<close>

theorem decode_failure_keeps_session:
  assumes "FromJSON bad = None" and "FromJSON good = Some msgs"
      and "Connected t" and "listeners_of t c ev_message = [MessageListener]"
  shows "ParseIncomingMessage FromJSON (Text bad) u = Inl DecodeFailed
       \<and> OnReaderLoad FromJSON bad u = Inl DecodeFailed
       \<and> ParseIncomingMessage FromJSON (Text good) u
           = Inr (u\<lparr>trace := trace u @ [(ParseMessages msgs, Connected u)]\<rparr>)
       \<and> ParseIncomingMessage FromJSON (Blob good) u
           = Inr (u\<lparr>trace := trace u @ [(readAsText good, Connected u)]\<rparr>)
       \<and> OnReaderLoad FromJSON good u
           = Inr (u\<lparr>trace := trace u @ [(ParseMessages msgs, Connected u)]\<rparr>)
       \<and> run FromJSON toJSON [socket_message c (Text bad)] t
           = t\<lparr>trace := trace t @ [(Raised DecodeFailed, True)]\<rparr>
       \<and> run FromJSON toJSON [socket_message c (Blob bad), reader_load bad] t
           = t\<lparr>trace := trace t @ [(readAsText bad, True), (Raised DecodeFailed, True)]\<rparr>
       \<and> Connected (run FromJSON toJSON [socket_message c (Text bad)] t)
       \<and> Connected (run FromJSON toJSON [socket_message c (Blob bad), reader_load bad] t)
       \<and> filter is_Emit (effects (run FromJSON toJSON [socket_message c (Text bad)] t))
           = filter is_Emit (effects t)
       \<and> filter is_Emit (effects (run FromJSON toJSON
            [socket_message c (Blob bad), reader_load bad] t))
           = filter is_Emit (effects t)
       \<and> run FromJSON toJSON
            [socket_message c (Text bad), socket_message c (Text good)] t
           = t\<lparr>trace := trace t @ [(Raised DecodeFailed, True), (ParseMessages msgs, True)]\<rparr>
       \<and> run FromJSON toJSON
            [socket_message c (Text bad), socket_message c (Blob good), reader_load good] t
           = t\<lparr>trace := trace t @ [(Raised DecodeFailed, True), (readAsText good, True),
                                     (ParseMessages msgs, True)]\<rparr>
       \<and> run FromJSON toJSON
            [socket_message c (Blob bad), reader_load bad, socket_message c (Text good)] t
           = t\<lparr>trace := trace t @ [(readAsText bad, True), (Raised DecodeFailed, True),
                                     (ParseMessages msgs, True)]\<rparr>
       \<and> run FromJSON toJSON
            [socket_message c (Blob bad), reader_load bad,
             socket_message c (Blob good), reader_load good] t
           = t\<lparr>trace := trace t @ [(readAsText bad, True), (Raised DecodeFailed, True),
                                     (readAsText good, True), (ParseMessages msgs, True)]\<rparr>"
proof -
  have methods: "ParseIncomingMessage FromJSON (Text bad) u = Inl DecodeFailed
       \<and> OnReaderLoad FromJSON bad u = Inl DecodeFailed
       \<and> ParseIncomingMessage FromJSON (Text good) u
           = Inr (u\<lparr>trace := trace u @ [(ParseMessages msgs, Connected u)]\<rparr>)
       \<and> ParseIncomingMessage FromJSON (Blob good) u
           = Inr (u\<lparr>trace := trace u @ [(readAsText good, Connected u)]\<rparr>)
       \<and> OnReaderLoad FromJSON good u
           = Inr (u\<lparr>trace := trace u @ [(ParseMessages msgs, Connected u)]\<rparr>)"
    using assms(1,2) by (simp add: ParseIncomingMessage_def OnReaderLoad_def effect_def)
  have runs: "run FromJSON toJSON [socket_message c (Text bad)] t
           = t\<lparr>trace := trace t @ [(Raised DecodeFailed, True)]\<rparr>"
    "run FromJSON toJSON [socket_message c (Blob bad), reader_load bad] t
           = t\<lparr>trace := trace t @ [(readAsText bad, True), (Raised DecodeFailed, True)]\<rparr>"
    "run FromJSON toJSON
            [socket_message c (Text bad), socket_message c (Text good)] t
           = t\<lparr>trace := trace t @ [(Raised DecodeFailed, True), (ParseMessages msgs, True)]\<rparr>"
    "run FromJSON toJSON
            [socket_message c (Text bad), socket_message c (Blob good), reader_load good] t
           = t\<lparr>trace := trace t @ [(Raised DecodeFailed, True), (readAsText good, True),
                                     (ParseMessages msgs, True)]\<rparr>"
    "run FromJSON toJSON
            [socket_message c (Blob bad), reader_load bad, socket_message c (Text good)] t
           = t\<lparr>trace := trace t @ [(readAsText bad, True), (Raised DecodeFailed, True),
                                     (ParseMessages msgs, True)]\<rparr>"
    "run FromJSON toJSON
            [socket_message c (Blob bad), reader_load bad,
             socket_message c (Blob good), reader_load good] t
           = t\<lparr>trace := trace t @ [(readAsText bad, True), (Raised DecodeFailed, True),
                                     (readAsText good, True), (ParseMessages msgs, True)]\<rparr>"
    using assms
    by (simp_all add: run_def message_listener_text message_listener_blob reader_load_result)
  show ?thesis
    by (simp only: methods runs) (simp add: assms(3) effects_def)
qed

theorem decode_failure_keeps_session_witness:
  "sample_FromJSON ''{bad'' = None \<and> sample_FromJSON ''[a,b]'' = Some [''a'', ''b'']
   \<and> Connected sample_connected
   \<and> listeners_of sample_connected 0 ev_message = [MessageListener]
   \<and> Connected (run sample_FromJSON sample_toJSON
        [socket_message 0 (Blob ''{bad''), reader_load ''{bad''] sample_connected)
   \<and> run sample_FromJSON sample_toJSON
        [socket_message 0 (Text ''{bad''), socket_message 0 (Text ''[a,b]'')] sample_connected
       = sample_connected\<lparr>trace := trace sample_connected
           @ [(Raised DecodeFailed, True), (ParseMessages [''a'', ''b''], True)]\<rparr>
   \<and> run sample_FromJSON sample_toJSON
        [socket_message 0 (Blob ''{bad''), reader_load ''{bad'',
         socket_message 0 (Blob ''[a,b]''), reader_load ''[a,b]''] sample_connected
       = sample_connected\<lparr>trace := trace sample_connected
           @ [(readAsText ''{bad'', True), (Raised DecodeFailed, True),
              (readAsText ''[a,b]'', True), (ParseMessages [''a'', ''b''], True)]\<rparr>"
proof -
  have h1: "sample_FromJSON ''{bad'' = None"
    by (simp add: sample_FromJSON_def)
  have h2: "sample_FromJSON ''[a,b]'' = Some [''a'', ''b'']"
    by (simp add: sample_FromJSON_def)
  have h3: "Connected sample_connected"
    by (simp add: sample_connected_eq Connected_def)
  have h4: "listeners_of sample_connected 0 ev_message = [MessageListener]"
    by (simp add: sample_connected_eq listeners_of_def)
  from decode_failure_keeps_session [where FromJSON = sample_FromJSON and bad = "''{bad''"
      and good = "''[a,b]''" and msgs = "[''a'', ''b'']" and t = sample_connected and c = 0
      and toJSON = sample_toJSON and u = sample_connected, OF h1 h2 h3 h4] h1 h2 h3 h4
  show ?thesis
    by blast
qed

end
